theory Spec2Isabelle
  imports Main "HOL-Library.Word"
begin

unbundle bit_operations_syntax

section \<open>The AT-SPI text adapter of gtkatspitext.c\<close>

text \<open>
  The file translates D-Bus method calls and property reads of the AT-SPI Text interface
  into calls of the GtkAccessibleText interface of a widget and marshals the results.
  The embedding follows the C text branch by branch.  C integers are machine words on an
  LP64 platform: \<open>int\<close>, \<open>guint\<close> and \<open>gunichar\<close> are 32 bits wide, \<open>gsize\<close> is 64 bits
  wide.  A conversion between \<open>int\<close> and \<open>guint\<close> keeps the bits, so both are the same
  word type; \<open>sint\<close> reads the signed value where the C text compares an \<open>int\<close>.
\<close>

type_synonym gint = "32 word"
type_synonym guint = "32 word"
type_synonym gunichar = "32 word"
type_synonym gsize = "64 word"

definition G_MAXUINT :: guint where
  "G_MAXUINT = 0xFFFFFFFF"

definition G_MAXINT :: gint where
  "G_MAXINT = 0x7FFFFFFF"

subsection \<open>Outcomes of a handler run\<close>

text \<open>
  A run of a handler either completes, stops in \<open>g_assert_not_reached\<close> (the process
  aborts), or leaves the defined behaviour of C and GLib: a read outside an array, a
  \<open>NULL\<close> handed to a GLib function that requires a value, a string without its
  terminating NUL byte, wire parameters that do not have the unpacked format.
\<close>

datatype 'a outcome = Completed 'a | AssertNotReached | Undefined

subsection \<open>Granularities\<close>

text \<open>
  \<open>AtspiTextGranularity\<close> is a C enumeration whose constants CHAR, WORD, SENTENCE, LINE
  and PARAGRAPH have the values 0 to 4; the wire carries it as a uint32, and
  \<open>g_variant_get\<close> stores whatever 32-bit value was sent.
\<close>

datatype GtkAccessibleTextGranularity =
    GTK_ACCESSIBLE_TEXT_GRANULARITY_CHARACTER
  | GTK_ACCESSIBLE_TEXT_GRANULARITY_WORD
  | GTK_ACCESSIBLE_TEXT_GRANULARITY_SENTENCE
  | GTK_ACCESSIBLE_TEXT_GRANULARITY_LINE
  | GTK_ACCESSIBLE_TEXT_GRANULARITY_PARAGRAPH

definition ATSPI_TEXT_GRANULARITY_CHAR :: guint where
  "ATSPI_TEXT_GRANULARITY_CHAR = 0"

definition ATSPI_TEXT_GRANULARITY_WORD :: guint where
  "ATSPI_TEXT_GRANULARITY_WORD = 1"

definition ATSPI_TEXT_GRANULARITY_SENTENCE :: guint where
  "ATSPI_TEXT_GRANULARITY_SENTENCE = 2"

definition ATSPI_TEXT_GRANULARITY_LINE :: guint where
  "ATSPI_TEXT_GRANULARITY_LINE = 3"

definition ATSPI_TEXT_GRANULARITY_PARAGRAPH :: guint where
  "ATSPI_TEXT_GRANULARITY_PARAGRAPH = 4"

text \<open>The \<open>switch\<close> of the source; \<open>None\<close> is its \<open>default\<close> branch, \<open>g_assert_not_reached\<close>.\<close>

definition atspi_granularity_to_gtk :: "guint \<Rightarrow> GtkAccessibleTextGranularity option" where
  "atspi_granularity_to_gtk granularity =
     (if granularity = ATSPI_TEXT_GRANULARITY_CHAR
        then Some GTK_ACCESSIBLE_TEXT_GRANULARITY_CHARACTER
      else if granularity = ATSPI_TEXT_GRANULARITY_WORD
        then Some GTK_ACCESSIBLE_TEXT_GRANULARITY_WORD
      else if granularity = ATSPI_TEXT_GRANULARITY_SENTENCE
        then Some GTK_ACCESSIBLE_TEXT_GRANULARITY_SENTENCE
      else if granularity = ATSPI_TEXT_GRANULARITY_LINE
        then Some GTK_ACCESSIBLE_TEXT_GRANULARITY_LINE
      else if granularity = ATSPI_TEXT_GRANULARITY_PARAGRAPH
        then Some GTK_ACCESSIBLE_TEXT_GRANULARITY_PARAGRAPH
      else None)"

subsection \<open>Wire values and replies\<close>

text \<open>
  A \<open>GVariant\<close> as far as the adapter builds or unpacks one: int32 (format \<open>i\<close>), uint32
  (\<open>u\<close>), string (\<open>s\<close>), an array of string pairs (\<open>a{ss}\<close>) and a tuple.  A string
  value holds the bytes of the C string handed to \<open>g_variant_new\<close>.
\<close>

datatype GVariant =
    GInt32 gint
  | GUInt32 guint
  | GString string
  | GDictSS "(string \<times> string) list"
  | GTuple "GVariant list"

datatype GDBusError = G_DBUS_ERROR_NOT_SUPPORTED | G_DBUS_ERROR_INVALID_ARGS

text \<open>
  What is sent on the invocation: \<open>g_dbus_method_invocation_return_value\<close>,
  \<open>g_dbus_method_invocation_return_error_literal\<close> with its message, or
  \<open>g_dbus_method_invocation_return_error\<close> with its format and its \<open>int\<close> argument.
\<close>

datatype reply =
    ReturnValue GVariant
  | ReturnErrorLiteral GDBusError string
  | ReturnError GDBusError string gint

text \<open>\<open>g_variant_get\<close> with the formats \<open>(ii)\<close>, \<open>(i)\<close>, \<open>(iu)\<close> and \<open>(i&s)\<close>.\<close>

fun g_variant_get_ii :: "GVariant \<Rightarrow> (gint \<times> gint) option" where
  "g_variant_get_ii (GTuple [GInt32 a, GInt32 b]) = Some (a, b)"
| "g_variant_get_ii _ = None"

fun g_variant_get_i :: "GVariant \<Rightarrow> gint option" where
  "g_variant_get_i (GTuple [GInt32 a]) = Some a"
| "g_variant_get_i _ = None"

fun g_variant_get_iu :: "GVariant \<Rightarrow> (gint \<times> guint) option" where
  "g_variant_get_iu (GTuple [GInt32 a, GUInt32 b]) = Some (a, b)"
| "g_variant_get_iu _ = None"

fun g_variant_get_is :: "GVariant \<Rightarrow> (gint \<times> string) option" where
  "g_variant_get_is (GTuple [GInt32 a, GString b]) = Some (a, b)"
| "g_variant_get_is _ = None"

subsection \<open>Byte buffers and the UTF-8 functions of GLib\<close>

text \<open>
  A \<open>GBytes\<close> is its byte sequence.  The adapter reads it through
  \<open>g_bytes_get_data (bytes, NULL)\<close> as a C string: the bytes before the first NUL.
  A buffer without a NUL byte would be read past its end.
\<close>

type_synonym GBytes = string

definition NUL :: char where
  "NUL = CHR 0x00"

definition c_string :: "GBytes \<Rightarrow> string option" where
  "c_string bytes =
     (if NUL \<in> set bytes then Some (takeWhile (\<lambda>c. c \<noteq> NUL) bytes) else None)"

text \<open>
  The table \<open>g_utf8_skip\<close> behind \<open>g_utf8_next_char\<close>: the length of a UTF-8 sequence
  by its first byte.
\<close>

definition g_utf8_skip :: "char \<Rightarrow> nat" where
  "g_utf8_skip c =
     (let b = (of_char c :: nat) in
      if b < 0xC0 then 1
      else if b < 0xE0 then 2
      else if b < 0xF0 then 3
      else if b < 0xF8 then 4
      else if b < 0xFC then 5
      else if b < 0xFE then 6
      else 1)"

text \<open>
  \<open>g_utf8_strlen (p, -1)\<close> on the bytes before the NUL: it steps with
  \<open>g_utf8_next_char\<close> until it stands on the NUL.  A step that jumps over the NUL leaves
  the string (\<open>None\<close>).
\<close>

function g_utf8_strlen :: "string \<Rightarrow> nat option" where
  "g_utf8_strlen [] = Some 0"
| "g_utf8_strlen (c # cs) =
     (if g_utf8_skip c - 1 \<le> length cs
      then map_option Suc (g_utf8_strlen (drop (g_utf8_skip c - 1) cs))
      else None)"
  by pat_completeness auto
termination
  by (relation "measure length") auto

text \<open>
  \<open>g_utf8_offset_to_pointer (str, offset)\<close> for an offset that is not negative: \<open>offset\<close>
  steps of \<open>g_utf8_next_char\<close>; the result is the rest of the string from there.
\<close>

fun g_utf8_offset_to_pointer :: "string \<Rightarrow> nat \<Rightarrow> string option" where
  "g_utf8_offset_to_pointer s 0 = Some s"
| "g_utf8_offset_to_pointer [] (Suc n) = None"
| "g_utf8_offset_to_pointer (c # cs) (Suc n) =
     (if g_utf8_skip c - 1 \<le> length cs
      then g_utf8_offset_to_pointer (drop (g_utf8_skip c - 1) cs) n
      else None)"

text \<open>
  \<open>g_utf8_get_char\<close>: the macro \<open>UTF8_COMPUTE\<close> gives the length and the mask of the first
  byte (no length for a byte that cannot start a sequence), \<open>UTF8_GET\<close> folds the
  continuation bytes in and gives \<open>(gunichar) -1\<close> at the first byte that is not one.
  The byte read at the end of the string is the NUL.
\<close>

definition utf8_compute :: "char \<Rightarrow> (nat \<times> gunichar) option" where
  "utf8_compute c =
     (let b = (of_char c :: gunichar) in
      if b < 128 then Some (1, 0x7F)
      else if b AND 0xE0 = 0xC0 then Some (2, 0x1F)
      else if b AND 0xF0 = 0xE0 then Some (3, 0x0F)
      else if b AND 0xF8 = 0xF0 then Some (4, 0x07)
      else if b AND 0xFC = 0xF8 then Some (5, 0x03)
      else if b AND 0xFE = 0xFC then Some (6, 0x01)
      else None)"

fun utf8_get :: "gunichar \<Rightarrow> string \<Rightarrow> nat \<Rightarrow> gunichar" where
  "utf8_get result cs 0 = result"
| "utf8_get result [] (Suc n) = - 1"
| "utf8_get result (c # cs) (Suc n) =
     (if (of_char c :: gunichar) AND 0xC0 \<noteq> 0x80 then - 1
      else utf8_get (push_bit 6 result OR ((of_char c :: gunichar) AND 0x3F)) cs n)"

fun g_utf8_get_char :: "string \<Rightarrow> gunichar" where
  "g_utf8_get_char [] = 0"
| "g_utf8_get_char (c # cs) =
     (case utf8_compute c of
        None \<Rightarrow> - 1
      | Some (len, msk) \<Rightarrow> utf8_get ((of_char c :: gunichar) AND msk) cs (len - 1))"

subsection \<open>The accessible-text capability\<close>

text \<open>
  \<open>GtkAccessibleTextRange\<close> has the two \<open>gsize\<close> fields \<open>start\<close> and \<open>length\<close>.
\<close>

record GtkAccessibleTextRange =
  range_start :: gsize
  range_length :: gsize

text \<open>
  What \<open>gtk_accessible_text_get_attributes\<close> stores through its output parameters: the
  count and the three arrays (the string arrays without their closing \<open>NULL\<close>).
\<close>

record text_attributes =
  n_attrs :: gsize
  attr_ranges :: "GtkAccessibleTextRange list"
  attr_names :: "string list"
  attr_values :: "string list"

text \<open>What \<open>gtk_accessible_text_get_selection\<close> stores: the count and the array.\<close>

record text_selection =
  n_ranges :: gsize
  sel_ranges :: "GtkAccessibleTextRange list"

text \<open>
  The functions \<open>gtk_accessible_text_get_caret_position\<close>, \<open>_get_contents\<close>,
  \<open>_get_contents_at\<close>, \<open>_get_attributes\<close> and \<open>_get_selection\<close> are implemented by the
  widget, outside the adapter.  They are a parameter of the model: a record of functions
  on the state \<open>'s\<close> of the accessible object, each returning its result and the state it
  leaves.  A \<open>GBytes *\<close> result may be \<open>NULL\<close> (\<open>None\<close>).
\<close>

record 's GtkAccessibleText =
  get_caret_position :: "'s \<Rightarrow> guint \<times> 's"
  get_contents :: "guint \<Rightarrow> guint \<Rightarrow> 's \<Rightarrow> GBytes option \<times> 's"
  get_contents_at ::
    "guint \<Rightarrow> GtkAccessibleTextGranularity \<Rightarrow> 's \<Rightarrow> (GBytes \<times> guint \<times> guint) option \<times> 's"
  get_attributes :: "guint \<Rightarrow> 's \<Rightarrow> text_attributes \<times> 's"
  get_selection :: "'s \<Rightarrow> text_selection \<times> 's"

text \<open>
  The adapter's calls into the capability are recorded: a run starts with the calls made
  so far and the state of the object, and returns both as it leaves them.
\<close>

datatype cap_call =
    Call_get_caret_position
  | Call_get_contents guint guint
  | Call_get_contents_at guint GtkAccessibleTextGranularity
  | Call_get_attributes guint
  | Call_get_selection

type_synonym 's cap_state = "cap_call list \<times> 's"

definition gtk_accessible_text_get_caret_position ::
  "'s GtkAccessibleText \<Rightarrow> 's cap_state \<Rightarrow> guint \<times> 's cap_state" where
  "gtk_accessible_text_get_caret_position cap st =
     (case get_caret_position cap (snd st) of
        (r, s') \<Rightarrow> (r, (fst st @ [Call_get_caret_position], s')))"

definition gtk_accessible_text_get_contents ::
  "'s GtkAccessibleText \<Rightarrow> guint \<Rightarrow> guint \<Rightarrow> 's cap_state \<Rightarrow> GBytes option \<times> 's cap_state" where
  "gtk_accessible_text_get_contents cap start endpos st =
     (case get_contents cap start endpos (snd st) of
        (r, s') \<Rightarrow> (r, (fst st @ [Call_get_contents start endpos], s')))"

definition gtk_accessible_text_get_contents_at ::
  "'s GtkAccessibleText \<Rightarrow> guint \<Rightarrow> GtkAccessibleTextGranularity \<Rightarrow> 's cap_state
     \<Rightarrow> (GBytes \<times> guint \<times> guint) option \<times> 's cap_state" where
  "gtk_accessible_text_get_contents_at cap offset granularity st =
     (case get_contents_at cap offset granularity (snd st) of
        (r, s') \<Rightarrow> (r, (fst st @ [Call_get_contents_at offset granularity], s')))"

definition gtk_accessible_text_get_attributes ::
  "'s GtkAccessibleText \<Rightarrow> guint \<Rightarrow> 's cap_state \<Rightarrow> text_attributes \<times> 's cap_state" where
  "gtk_accessible_text_get_attributes cap offset st =
     (case get_attributes cap offset (snd st) of
        (r, s') \<Rightarrow> (r, (fst st @ [Call_get_attributes offset], s')))"

definition gtk_accessible_text_get_selection ::
  "'s GtkAccessibleText \<Rightarrow> 's cap_state \<Rightarrow> text_selection \<times> 's cap_state" where
  "gtk_accessible_text_get_selection cap st =
     (case get_selection cap (snd st) of
        (r, s') \<Rightarrow> (r, (fst st @ [Call_get_selection], s')))"

text \<open>Reading \<open>a[i]\<close>: outside the array there is nothing to read.\<close>

definition array_get :: "'a list \<Rightarrow> nat \<Rightarrow> 'a option" where
  "array_get a i = (if i < length a then Some (a ! i) else None)"

subsection \<open>Sending the reply\<close>

definition g_dbus_method_invocation_return_value ::
  "GVariant \<Rightarrow> 's cap_state \<Rightarrow> reply option outcome \<times> 's cap_state" where
  "g_dbus_method_invocation_return_value v st = (Completed (Some (ReturnValue v)), st)"

definition g_dbus_method_invocation_return_error_literal ::
  "GDBusError \<Rightarrow> string \<Rightarrow> 's cap_state \<Rightarrow> reply option outcome \<times> 's cap_state" where
  "g_dbus_method_invocation_return_error_literal code msg st =
     (Completed (Some (ReturnErrorLiteral code msg)), st)"

definition g_dbus_method_invocation_return_error ::
  "GDBusError \<Rightarrow> string \<Rightarrow> gint \<Rightarrow> 's cap_state \<Rightarrow> reply option outcome \<times> 's cap_state" where
  "g_dbus_method_invocation_return_error code fmt arg st =
     (Completed (Some (ReturnError code fmt arg)), st)"

subsection \<open>The branches of \<open>accessible_text_handle_method\<close>\<close>

definition handle_GetCaretOffset ::
  "'s GtkAccessibleText \<Rightarrow> 's cap_state \<Rightarrow> reply option outcome \<times> 's cap_state" where
  "handle_GetCaretOffset cap st =
     (case gtk_accessible_text_get_caret_position cap st of
        (offset, st') \<Rightarrow>
          g_dbus_method_invocation_return_value (GTuple [GInt32 offset]) st')"

text \<open>
  GetText: \<open>start\<close> and \<open>end\<close> are \<open>int\<close>; the call converts them to \<open>unsigned int\<close>, and
  a negative \<open>end\<close> is replaced by \<open>G_MAXUINT\<close>.  The reply is built from the C string
  behind \<open>g_bytes_get_data\<close>, which requires a \<open>GBytes\<close>.
\<close>

definition handle_GetText ::
  "'s GtkAccessibleText \<Rightarrow> GVariant \<Rightarrow> 's cap_state \<Rightarrow> reply option outcome \<times> 's cap_state" where
  "handle_GetText cap parameters st =
     (case g_variant_get_ii parameters of
        None \<Rightarrow> (Undefined, st)
      | Some (start, endpos) \<Rightarrow>
          (case gtk_accessible_text_get_contents cap start
                  (if sint endpos < 0 then G_MAXUINT else endpos) st of
             (None, st') \<Rightarrow> (Undefined, st')
           | (Some contents, st') \<Rightarrow>
               (case c_string contents of
                  None \<Rightarrow> (Undefined, st')
                | Some str \<Rightarrow>
                    g_dbus_method_invocation_return_value (GTuple [GString str]) st')))"

text \<open>
  GetCharacterAtOffset: \<open>ch\<close> starts as 0 and is set only when \<open>text\<close> is there and
  \<open>0 <= offset && offset < g_utf8_strlen (str, -1)\<close>; \<open>str\<close> is the text that the capability
  returned for the range from \<open>offset\<close> to \<open>offset + 1\<close> (the sum is taken with
  wrap-around).
\<close>

definition character_at_offset :: "GBytes \<Rightarrow> gint \<Rightarrow> gunichar outcome" where
  "character_at_offset text offset =
     (if 0 \<le> sint offset then
        (case c_string text of
           None \<Rightarrow> Undefined
         | Some str \<Rightarrow>
             (case g_utf8_strlen str of
                None \<Rightarrow> Undefined
              | Some len \<Rightarrow>
                  if sint offset < int len then
                    (case g_utf8_offset_to_pointer str (nat (sint offset)) of
                       None \<Rightarrow> Undefined
                     | Some p \<Rightarrow> Completed (g_utf8_get_char p))
                  else Completed 0))
      else Completed 0)"

definition handle_GetCharacterAtOffset ::
  "'s GtkAccessibleText \<Rightarrow> GVariant \<Rightarrow> 's cap_state \<Rightarrow> reply option outcome \<times> 's cap_state" where
  "handle_GetCharacterAtOffset cap parameters st =
     (case g_variant_get_i parameters of
        None \<Rightarrow> (Undefined, st)
      | Some offset \<Rightarrow>
          (case gtk_accessible_text_get_contents cap offset (offset + 1) st of
             (None, st') \<Rightarrow>
               g_dbus_method_invocation_return_value (GTuple [GInt32 0]) st'
           | (Some text, st') \<Rightarrow>
               (case character_at_offset text offset of
                  Completed ch \<Rightarrow>
                    g_dbus_method_invocation_return_value (GTuple [GInt32 ch]) st'
                | AssertNotReached \<Rightarrow> (AssertNotReached, st')
                | Undefined \<Rightarrow> (Undefined, st'))))"

text \<open>
  GetStringAtOffset: the granularity is converted before the capability is called; the
  \<open>unsigned int\<close> bounds go out as \<open>i\<close>.
\<close>

definition handle_GetStringAtOffset ::
  "'s GtkAccessibleText \<Rightarrow> GVariant \<Rightarrow> 's cap_state \<Rightarrow> reply option outcome \<times> 's cap_state" where
  "handle_GetStringAtOffset cap parameters st =
     (case g_variant_get_iu parameters of
        None \<Rightarrow> (Undefined, st)
      | Some (offset, granularity) \<Rightarrow>
          (case atspi_granularity_to_gtk granularity of
             None \<Rightarrow> (AssertNotReached, st)
           | Some g \<Rightarrow>
               (case gtk_accessible_text_get_contents_at cap offset g st of
                  (None, st') \<Rightarrow>
                    g_dbus_method_invocation_return_value
                      (GTuple [GString [], GInt32 (- 1), GInt32 (- 1)]) st'
                | (Some (bytes, start, endpos), st') \<Rightarrow>
                    (case c_string bytes of
                       None \<Rightarrow> (Undefined, st')
                     | Some str \<Rightarrow>
                         g_dbus_method_invocation_return_value
                           (GTuple [GString str, GInt32 start, GInt32 endpos]) st'))))"

text \<open>
  GetAttributes.  The macros \<open>MAX\<close> and \<open>MIN\<close> compare an \<open>int\<close> with a \<open>gsize\<close>: the
  \<open>int\<close> is converted to \<open>gsize\<close> (sign-extended), the comparison is unsigned, and the
  assignment to the \<open>int\<close> keeps the low 32 bits.  The second operand of \<open>MIN\<close> is
  \<open>start + ranges[i].length\<close>, with the \<open>start\<close> just assigned.
\<close>

definition MAX_macro :: "gsize \<Rightarrow> gsize \<Rightarrow> gsize" where
  "MAX_macro a b = (if a > b then a else b)"

definition MIN_macro :: "gsize \<Rightarrow> gsize \<Rightarrow> gsize" where
  "MIN_macro a b = (if a < b then a else b)"

type_synonym attributes_acc = "(string \<times> string) list \<times> gint \<times> gint"

definition attributes_step ::
  "string \<Rightarrow> string \<Rightarrow> GtkAccessibleTextRange \<Rightarrow> attributes_acc \<Rightarrow> attributes_acc" where
  "attributes_step name val r acc =
     (case acc of (builder, start, endpos) \<Rightarrow>
        (let start' = (ucast (MAX_macro (scast start) (range_start r)) :: gint);
             end' = (ucast (MIN_macro (scast endpos) (scast start' + range_length r)) :: gint)
         in (builder @ [(name, val)], start', end')))"

primrec attributes_loop ::
  "text_attributes \<Rightarrow> nat list \<Rightarrow> attributes_acc \<Rightarrow> attributes_acc outcome" where
  "attributes_loop attrs [] acc = Completed acc"
| "attributes_loop attrs (i # rest) acc =
     (case (array_get (attr_names attrs) i, array_get (attr_values attrs) i,
            array_get (attr_ranges attrs) i) of
        (Some name, Some val, Some r) \<Rightarrow>
          attributes_loop attrs rest (attributes_step name val r acc)
      | _ \<Rightarrow> Undefined)"

text \<open>
  The loop counter is an \<open>int\<close> compared with the \<open>gsize\<close> count: with a count of
  \<open>2^31\<close> or more the counter would overflow.
\<close>

definition handle_GetAttributes ::
  "'s GtkAccessibleText \<Rightarrow> GVariant \<Rightarrow> 's cap_state \<Rightarrow> reply option outcome \<times> 's cap_state" where
  "handle_GetAttributes cap parameters st =
     (case g_variant_get_i parameters of
        None \<Rightarrow> (Undefined, st)
      | Some offset \<Rightarrow>
          (case gtk_accessible_text_get_attributes cap offset st of
             (attrs, st') \<Rightarrow>
               if 2 ^ 31 \<le> unat (n_attrs attrs) then (Undefined, st')
               else
                 (case attributes_loop attrs [0 ..< unat (n_attrs attrs)] ([], 0, G_MAXINT) of
                    Completed (builder, start, endpos) \<Rightarrow>
                      g_dbus_method_invocation_return_value
                        (GTuple [GDictSS builder, GInt32 start, GInt32 endpos]) st'
                  | AssertNotReached \<Rightarrow> (AssertNotReached, st')
                  | Undefined \<Rightarrow> (Undefined, st'))))"

text \<open>
  GetAttributeValue: \<open>val\<close> starts as the empty string; the loop runs over \<open>names\<close> up to
  its closing \<open>NULL\<close> and takes \<open>values[i]\<close> at the first name that matches.
\<close>

fun attribute_value_loop :: "string \<Rightarrow> string list \<Rightarrow> string list \<Rightarrow> string option" where
  "attribute_value_loop name [] vals = Some []"
| "attribute_value_loop name (n # names) vals =
     (if n = name then (case vals of [] \<Rightarrow> None | v # _ \<Rightarrow> Some v)
      else attribute_value_loop name names (tl vals))"

definition handle_GetAttributeValue ::
  "'s GtkAccessibleText \<Rightarrow> GVariant \<Rightarrow> 's cap_state \<Rightarrow> reply option outcome \<times> 's cap_state" where
  "handle_GetAttributeValue cap parameters st =
     (case g_variant_get_is parameters of
        None \<Rightarrow> (Undefined, st)
      | Some (offset, name) \<Rightarrow>
          (case gtk_accessible_text_get_attributes cap offset st of
             (attrs, st') \<Rightarrow>
               (case attribute_value_loop name (attr_names attrs) (attr_values attrs) of
                  None \<Rightarrow> (Undefined, st')
                | Some val \<Rightarrow>
                    g_dbus_method_invocation_return_value (GTuple [GString val]) st')))"

definition handle_GetNSelections ::
  "'s GtkAccessibleText \<Rightarrow> 's cap_state \<Rightarrow> reply option outcome \<times> 's cap_state" where
  "handle_GetNSelections cap st =
     (case gtk_accessible_text_get_selection cap st of
        (sel, st') \<Rightarrow>
          g_dbus_method_invocation_return_value
            (GTuple [GInt32 (ucast (n_ranges sel))]) st')"

text \<open>
  GetSelection: in \<open>num >= n_ranges\<close> the \<open>int\<close> is converted to \<open>gsize\<close>; \<open>start\<close> and
  \<open>end\<close> are \<open>int\<close>, so \<open>ranges[num].start\<close> and the \<open>gsize\<close> sum lose their high bits.
\<close>

definition handle_GetSelection ::
  "'s GtkAccessibleText \<Rightarrow> GVariant \<Rightarrow> 's cap_state \<Rightarrow> reply option outcome \<times> 's cap_state" where
  "handle_GetSelection cap parameters st =
     (case g_variant_get_i parameters of
        None \<Rightarrow> (Undefined, st)
      | Some num \<Rightarrow>
          (case gtk_accessible_text_get_selection cap st of
             (sel, st') \<Rightarrow>
               if sint num < 0 \<or> (scast num :: gsize) \<ge> n_ranges sel then
                 g_dbus_method_invocation_return_error G_DBUS_ERROR_INVALID_ARGS
                   ''Not a valid selection: %d'' num st'
               else
                 (case array_get (sel_ranges sel) (nat (sint num)) of
                    None \<Rightarrow> (Undefined, st')
                  | Some r \<Rightarrow>
                      (let start = (ucast (range_start r) :: gint);
                           endpos = (ucast ((scast start :: gsize) + range_length r) :: gint)
                       in g_dbus_method_invocation_return_value
                            (GTuple [GInt32 start, GInt32 endpos]) st'))))"

subsection \<open>The dispatch chain\<close>

text \<open>
  The chain of \<open>g_strcmp0\<close> tests in the order of the source.  After the last test the
  function ends: nothing is sent on the invocation (\<open>None\<close>).
\<close>

definition accessible_text_handle_method ::
  "'s GtkAccessibleText \<Rightarrow> string \<Rightarrow> GVariant \<Rightarrow> 's cap_state
     \<Rightarrow> reply option outcome \<times> 's cap_state" where
  "accessible_text_handle_method cap method_name parameters st =
     (if method_name = ''GetCaretOffset'' then handle_GetCaretOffset cap st
      else if method_name = ''SetCaretOffset'' then
        g_dbus_method_invocation_return_error_literal G_DBUS_ERROR_NOT_SUPPORTED [] st
      else if method_name = ''GetText'' then handle_GetText cap parameters st
      else if method_name = ''GetTextBeforeOffset'' then
        g_dbus_method_invocation_return_error_literal G_DBUS_ERROR_NOT_SUPPORTED
          ''This method is deprecated in favor of GetStringAtOffset'' st
      else if method_name = ''GetTextAtOffset'' then
        g_dbus_method_invocation_return_error_literal G_DBUS_ERROR_NOT_SUPPORTED
          ''This method is deprecated in favor of GetStringAtOffset'' st
      else if method_name = ''GetTextAfterOffset'' then
        g_dbus_method_invocation_return_error_literal G_DBUS_ERROR_NOT_SUPPORTED
          ''This method is deprecated in favor of GetStringAtOffset'' st
      else if method_name = ''GetCharacterAtOffset'' then
        handle_GetCharacterAtOffset cap parameters st
      else if method_name = ''GetStringAtOffset'' then
        handle_GetStringAtOffset cap parameters st
      else if method_name = ''GetAttributes'' then handle_GetAttributes cap parameters st
      else if method_name = ''GetAttributeValue'' then
        handle_GetAttributeValue cap parameters st
      else if method_name = ''GetAttributeRun'' then
        g_dbus_method_invocation_return_error_literal G_DBUS_ERROR_NOT_SUPPORTED [] st
      else if method_name = ''GetDefaultAttributes'' \<or>
              method_name = ''GetDefaultAttributeSet'' then
        g_dbus_method_invocation_return_error_literal G_DBUS_ERROR_NOT_SUPPORTED [] st
      else if method_name = ''GetNSelections'' then handle_GetNSelections cap st
      else if method_name = ''GetSelection'' then handle_GetSelection cap parameters st
      else if method_name = ''AddSelection'' then
        g_dbus_method_invocation_return_error_literal G_DBUS_ERROR_NOT_SUPPORTED [] st
      else if method_name = ''RemoveSelection'' then
        g_dbus_method_invocation_return_error_literal G_DBUS_ERROR_NOT_SUPPORTED [] st
      else if method_name = ''SetSelection'' then
        g_dbus_method_invocation_return_error_literal G_DBUS_ERROR_NOT_SUPPORTED [] st
      else if method_name = ''GetCharacterExtents'' then
        g_dbus_method_invocation_return_error_literal G_DBUS_ERROR_NOT_SUPPORTED [] st
      else if method_name = ''GetRangeExtents'' then
        g_dbus_method_invocation_return_error_literal G_DBUS_ERROR_NOT_SUPPORTED [] st
      else if method_name = ''GetBoundedRanges'' then
        g_dbus_method_invocation_return_error_literal G_DBUS_ERROR_NOT_SUPPORTED [] st
      else if method_name = ''ScrollSubstringTo'' then
        g_dbus_method_invocation_return_error_literal G_DBUS_ERROR_NOT_SUPPORTED [] st
      else if method_name = ''ScrollSubstringToPoint'' then
        g_dbus_method_invocation_return_error_literal G_DBUS_ERROR_NOT_SUPPORTED [] st
      else (Completed None, st))"

text \<open>The method names that the chain tests, and the ones whose branch only sends the error.\<close>

definition dispatched_methods :: "string list" where
  "dispatched_methods =
     [''GetCaretOffset'', ''SetCaretOffset'', ''GetText'', ''GetTextBeforeOffset'',
      ''GetTextAtOffset'', ''GetTextAfterOffset'', ''GetCharacterAtOffset'',
      ''GetStringAtOffset'', ''GetAttributes'', ''GetAttributeValue'', ''GetAttributeRun'',
      ''GetDefaultAttributes'', ''GetDefaultAttributeSet'', ''GetNSelections'',
      ''GetSelection'', ''AddSelection'', ''RemoveSelection'', ''SetSelection'',
      ''GetCharacterExtents'', ''GetRangeExtents'', ''GetBoundedRanges'',
      ''ScrollSubstringTo'', ''ScrollSubstringToPoint'']"

definition stubbed_methods :: "string list" where
  "stubbed_methods =
     [''SetCaretOffset'', ''GetTextBeforeOffset'', ''GetTextAtOffset'',
      ''GetTextAfterOffset'', ''GetAttributeRun'', ''GetDefaultAttributes'',
      ''GetDefaultAttributeSet'', ''AddSelection'', ''RemoveSelection'', ''SetSelection'',
      ''GetCharacterExtents'', ''GetRangeExtents'', ''GetBoundedRanges'',
      ''ScrollSubstringTo'', ''ScrollSubstringToPoint'']"

subsection \<open>\<open>accessible_text_get_property\<close>\<close>

text \<open>
  The result is the \<open>GVariant\<close>, or \<open>NULL\<close> (\<open>None\<close>) for any other property name.
  CharacterCount: \<open>g_utf8_strlen\<close> of the C string of the whole contents, converted
  from \<open>gsize\<close> to \<open>int\<close>.
\<close>

definition accessible_text_get_property ::
  "'s GtkAccessibleText \<Rightarrow> string \<Rightarrow> 's cap_state \<Rightarrow> GVariant option outcome \<times> 's cap_state" where
  "accessible_text_get_property cap property_name st =
     (if property_name = ''CharacterCount'' then
        (case gtk_accessible_text_get_contents cap 0 G_MAXUINT st of
           (None, st') \<Rightarrow> (Undefined, st')
         | (Some contents, st') \<Rightarrow>
             (case c_string contents of
                None \<Rightarrow> (Undefined, st')
              | Some str \<Rightarrow>
                  (case g_utf8_strlen str of
                     None \<Rightarrow> (Undefined, st')
                   | Some len \<Rightarrow> (Completed (Some (GInt32 (of_nat len))), st'))))
      else if property_name = ''CaretOffset'' then
        (case gtk_accessible_text_get_caret_position cap st of
           (offset, st') \<Rightarrow> (Completed (Some (GInt32 offset)), st'))
      else (Completed None, st))"

subsection \<open>A text widget behind the capability\<close>

text \<open>
  \<open>g_unichar_to_utf8\<close> for the code points of Unicode, which take one to four bytes.
\<close>

definition g_unichar_to_utf8 :: "nat \<Rightarrow> string" where
  "g_unichar_to_utf8 c =
     (if c < 0x80 then [char_of c]
      else if c < 0x800 then [char_of (0xC0 + c div 64), char_of (0x80 + c mod 64)]
      else if c < 0x10000 then
        [char_of (0xE0 + c div 4096), char_of (0x80 + c div 64 mod 64),
         char_of (0x80 + c mod 64)]
      else
        [char_of (0xF0 + c div 262144), char_of (0x80 + c div 4096 mod 64),
         char_of (0x80 + c div 64 mod 64), char_of (0x80 + c mod 64)])"

definition utf8_text :: "nat list \<Rightarrow> string" where
  "utf8_text cps = concat (map g_unichar_to_utf8 cps)"

definition unicode_text :: "nat list \<Rightarrow> bool" where
  "unicode_text cps = list_all (\<lambda>c. 0 < c \<and> c < 0x110000) cps"

text \<open>
  Modelled from the spec: the widget side of the capability is not part of the adapter.
  This instance is a widget holding a text (its code points), a caret, a selection and
  attribute runs.  \<open>get_contents\<close> has the meaning the interface documents: the
  characters from \<open>start\<close> up to \<open>end\<close>, as NUL-terminated UTF-8, and nothing when
  \<open>end\<close> is before \<open>start\<close>.  \<open>get_contents_at\<close> answers with the single character at
  the offset for every granularity.  No function changes the widget.
\<close>

record widget =
  w_text :: "nat list"
  w_caret :: guint
  w_selection :: text_selection
  w_attributes :: text_attributes

definition widget_get_contents :: "guint \<Rightarrow> guint \<Rightarrow> widget \<Rightarrow> GBytes option" where
  "widget_get_contents start endpos w =
     (if endpos < start then None
      else Some (utf8_text (take (unat endpos - unat start) (drop (unat start) (w_text w)))
                 @ [NUL]))"

definition widget_get_contents_at ::
  "guint \<Rightarrow> GtkAccessibleTextGranularity \<Rightarrow> widget \<Rightarrow> (GBytes \<times> guint \<times> guint) option" where
  "widget_get_contents_at offset granularity w =
     (if unat offset < length (w_text w)
      then Some (g_unichar_to_utf8 (w_text w ! unat offset) @ [NUL], offset, offset + 1)
      else None)"

definition text_widget :: "widget GtkAccessibleText" where
  "text_widget =
     \<lparr> get_caret_position = (\<lambda>w. (w_caret w, w)),
       get_contents = (\<lambda>start endpos w. (widget_get_contents start endpos w, w)),
       get_contents_at = (\<lambda>offset granularity w. (widget_get_contents_at offset granularity w, w)),
       get_attributes = (\<lambda>offset w. (w_attributes w, w)),
       get_selection = (\<lambda>w. (w_selection w, w)) \<rparr>"

text \<open>A capability is read-only when none of its five functions changes the object.\<close>

definition read_only :: "'s GtkAccessibleText \<Rightarrow> bool" where
  "read_only cap \<longleftrightarrow>
     (\<forall>s. snd (get_caret_position cap s) = s) \<and>
     (\<forall>a b s. snd (get_contents cap a b s) = s) \<and>
     (\<forall>a g s. snd (get_contents_at cap a g s) = s) \<and>
     (\<forall>a s. snd (get_attributes cap a s) = s) \<and>
     (\<forall>s. snd (get_selection cap s) = s)"

text \<open>
  A widget showing the two characters \<open>ab\<close>, with the caret after the first and the
  whole text selected.  Its attribute report is that of two overlapping runs: \<open>weight\<close>
  over the characters from 10 up to 110 and \<open>style\<close> over the characters from 0 up
  to 20.
\<close>

definition sample_widget :: widget where
  "sample_widget =
     \<lparr> w_text = [97, 98],
       w_caret = 1,
       w_selection = \<lparr> n_ranges = 1, sel_ranges = [\<lparr> range_start = 0, range_length = 2 \<rparr>] \<rparr>,
       w_attributes =
         \<lparr> n_attrs = 2,
           attr_ranges = [\<lparr> range_start = 10, range_length = 100 \<rparr>,
                          \<lparr> range_start = 0, range_length = 20 \<rparr>],
           attr_names = [''weight'', ''style''],
           attr_values = [''bold'', ''italic''] \<rparr> \<rparr>"

text \<open>
  The bounds of GetAttributes as the specification words them, for comparison with
  the loop: the start is the greatest of the range starts, the end is the least of the
  range ends \<open>start_i + length_i\<close>, beginning from 0 and \<open>G_MAXINT\<close>.
\<close>

definition spec_attribute_bounds :: "GtkAccessibleTextRange list \<Rightarrow> int \<times> int" where
  "spec_attribute_bounds rs =
     (fold max (map (\<lambda>r. uint (range_start r)) rs) 0,
      fold min (map (\<lambda>r. uint (range_start r) + uint (range_length r)) rs) (sint G_MAXINT))"

text \<open>A widget whose text has characters of one, two and three bytes.\<close>

definition accented_widget :: widget where
  "accented_widget = sample_widget \<lparr> w_text := [233, 8364, 97] \<rparr>"

section \<open>Properties\<close>

lemmas atspi_granularity_defs =
  ATSPI_TEXT_GRANULARITY_CHAR_def ATSPI_TEXT_GRANULARITY_WORD_def
  ATSPI_TEXT_GRANULARITY_SENTENCE_def ATSPI_TEXT_GRANULARITY_LINE_def
  ATSPI_TEXT_GRANULARITY_PARAGRAPH_def

subsection \<open>Stubbed methods\<close>

text \<open>
  C1.  Each of the fifteen stubbed methods (SetCaretOffset, GetTextBeforeOffset,
  GetTextAtOffset, GetTextAfterOffset, GetAttributeRun, GetDefaultAttributes,
  GetDefaultAttributeSet, AddSelection, RemoveSelection, SetSelection,
  GetCharacterExtents, GetRangeExtents, GetBoundedRanges, ScrollSubstringTo,
  ScrollSubstringToPoint) is answered with the error \<open>G_DBUS_ERROR_NOT_SUPPORTED\<close>, for
  every capability and all parameters, and the run leaves the recorded calls and the
  object as they were: the capability is not called.
\<close>

theorem stubbed_methods_not_supported:
  "method_name \<in> set stubbed_methods \<Longrightarrow>
   \<exists>msg. accessible_text_handle_method cap method_name parameters (calls, s)
     = (Completed (Some (ReturnErrorLiteral G_DBUS_ERROR_NOT_SUPPORTED msg)), (calls, s))"
  unfolding stubbed_methods_def accessible_text_handle_method_def
    g_dbus_method_invocation_return_error_literal_def
  by (elim disjE | simp)+

theorem stubbed_methods_not_supported_witness:
  "''ScrollSubstringTo'' \<in> set stubbed_methods \<and>
   (\<exists>msg. accessible_text_handle_method text_widget ''ScrollSubstringTo''
             (GTuple [GInt32 0, GInt32 1, GUInt32 2]) ([], sample_widget)
     = (Completed (Some (ReturnErrorLiteral G_DBUS_ERROR_NOT_SUPPORTED msg)),
        ([], sample_widget)))"
proof -
  have m: "''ScrollSubstringTo'' \<in> set stubbed_methods"
    by (simp add: stubbed_methods_def)
  show ?thesis
    using m stubbed_methods_not_supported [OF m, of text_widget
        "GTuple [GInt32 0, GInt32 1, GUInt32 2]" "[]" sample_widget]
    by simp
qed

subsection \<open>Method names outside the dispatch chain\<close>

text \<open>
  C6.  For a method name that is none of the names tested in the dispatch chain, the
  handler completes without sending a value or an error on the invocation, and without
  calling the capability.
\<close>

theorem unknown_method_no_reply:
  "method_name \<notin> set dispatched_methods \<Longrightarrow>
   accessible_text_handle_method cap method_name parameters (calls, s)
     = (Completed None, (calls, s))"
  unfolding dispatched_methods_def accessible_text_handle_method_def
  by simp

theorem unknown_method_no_reply_witness:
  "''GetOffsetAtPoint'' \<notin> set dispatched_methods \<and>
   accessible_text_handle_method text_widget ''GetOffsetAtPoint''
       (GTuple [GInt32 3, GInt32 4, GUInt32 0]) ([], sample_widget)
     = (Completed None, ([], sample_widget))"
proof -
  have m: "''GetOffsetAtPoint'' \<notin> set dispatched_methods"
    by (simp add: dispatched_methods_def)
  show ?thesis
    using m unknown_method_no_reply [OF m, of text_widget
        "GTuple [GInt32 3, GInt32 4, GUInt32 0]" "[]" sample_widget]
    by simp
qed

subsection \<open>Granularity values from the wire\<close>

text \<open>
  C8.  The claim that \<open>atspi_granularity_to_gtk\<close> never reaches \<open>g_assert_not_reached\<close>
  does not hold of the code: the value 5 is none of the five constants, the \<open>switch\<close>
  takes its \<open>default\<close> branch, and GetStringAtOffset with granularity 5 stops in the
  assertion before the capability is called.
\<close>

theorem granularity_5_reaches_assert:
  "atspi_granularity_to_gtk 5 = None \<and>
   accessible_text_handle_method cap ''GetStringAtOffset'' (GTuple [GInt32 0, GUInt32 5])
       (calls, s)
     = (AssertNotReached, (calls, s))"
  by (simp add: atspi_granularity_to_gtk_def atspi_granularity_defs
      accessible_text_handle_method_def handle_GetStringAtOffset_def)

subsection \<open>Conversions between \<open>int\<close> and \<open>gsize\<close>\<close>

lemma ucast_add_down:
  "(ucast (p + b :: 64 word) :: 32 word) = ucast p + ucast b"
proof -
  have "(ucast (p + b) :: 32 word) = word_of_int (take_bit 64 (uint p + uint b))"
    by (simp only: ucast_eq uint_word_arith_bintrs) simp
  also have "\<dots> = word_of_int (uint p + uint b)"
    by (rule wi_bintr) simp
  also have "\<dots> = word_of_int (uint p) + word_of_int (uint b)"
    by (simp only: wi_hom_add)
  finally show ?thesis
    by (simp only: ucast_eq)
qed

lemma ucast_scast_id: "(ucast (scast (w :: 32 word) :: 64 word) :: 32 word) = w"
  by (rule bit_eqI) (auto simp add: bit_simps)

lemma unat_scast_nonneg:
  assumes "0 \<le> sint (num :: 32 word)"
  shows "unat (scast num :: 64 word) = nat (sint num)"
proof -
  have lt: "sint num < 2 ^ 64"
    using sint_lt [of num] by simp
  have "uint (scast num :: 64 word) = uint (word_of_int (sint num) :: 64 word)"
    by (simp only: scast_eq)
  also have "\<dots> = take_bit 64 (sint num)"
    by (simp only: uint_word_of_int_eq) simp
  also have "\<dots> = sint num"
    using assms lt by (simp add: take_bit_int_eq_self)
  finally show ?thesis
    by (simp add: unat_eq_nat_uint)
qed

lemma scast_ge_iff:
  "0 \<le> sint (num :: 32 word) \<Longrightarrow> ((scast num :: 64 word) \<ge> n) = (unat n \<le> nat (sint num))"
  by (simp add: word_le_nat_alt unat_scast_nonneg)

lemma selection_end:
  "(ucast ((scast (ucast a :: 32 word) :: 64 word) + b) :: 32 word) = ucast (a + b)"
  by (simp add: ucast_add_down ucast_scast_id)

subsection \<open>What the sample widget answers\<close>

lemma sample_contents_all:
  "get_contents text_widget 0 G_MAXUINT sample_widget = (Some (''ab'' @ [NUL]), sample_widget)"
  by (simp add: text_widget_def widget_get_contents_def G_MAXUINT_def sample_widget_def
      utf8_text_def g_unichar_to_utf8_def char_of_def bit_Suc_0_iff)

lemma c_string_ab: "c_string (''ab'' @ [NUL]) = Some ''ab''"
  by (simp add: c_string_def NUL_def)





lemma sample_selection:
  "get_selection text_widget sample_widget
     = (\<lparr> n_ranges = 1, sel_ranges = [\<lparr> range_start = 0, range_length = 2 \<rparr>] \<rparr>, sample_widget)"
  by (simp add: text_widget_def sample_widget_def)

subsection \<open>GetText\<close>

text \<open>
  When the capability returns contents, GetText with the arguments \<open>(start, end)\<close>
  replies with their string: \<open>get_contents\<close> is called once, with \<open>start\<close> and with
  \<open>end\<close> when \<open>end\<close> is not negative, with \<open>G_MAXUINT\<close> in its place when it is
  negative.
\<close>

lemma GetText_returned_contents:
  assumes "get_contents cap start (if sint endpos < 0 then G_MAXUINT else endpos) s
             = (Some contents, s')"
    and "c_string contents = Some str"
  shows "accessible_text_handle_method cap ''GetText'' (GTuple [GInt32 start, GInt32 endpos])
           (calls, s)
         = (Completed (Some (ReturnValue (GTuple [GString str]))),
            (calls @ [Call_get_contents start (if sint endpos < 0 then G_MAXUINT else endpos)],
             s'))"
  using assms
  by (simp add: accessible_text_handle_method_def handle_GetText_def
      gtk_accessible_text_get_contents_def g_dbus_method_invocation_return_value_def)

lemma GetText_whole_text:
  "accessible_text_handle_method text_widget ''GetText'' (GTuple [GInt32 0, GInt32 (- 1)])
       ([], sample_widget)
     = (Completed (Some (ReturnValue (GTuple [GString ''ab'']))),
        ([Call_get_contents 0 G_MAXUINT], sample_widget))"
proof -
  have neg: "sint (- 1 :: gint) < 0"
    by simp
  have h: "get_contents text_widget 0 (if sint (- 1 :: gint) < 0 then G_MAXUINT else - 1)
             sample_widget = (Some (''ab'' @ [NUL]), sample_widget)"
    using neg sample_contents_all by simp
  show ?thesis
    using GetText_returned_contents [OF h c_string_ab, of "[]"] neg
    by simp
qed

text \<open>
  When the capability returns no contents, the branch hands the \<open>NULL\<close> to
  \<open>g_bytes_get_data\<close>: unlike the branches of GetCharacterAtOffset (\<open>text != NULL\<close>) and
  GetStringAtOffset (\<open>bytes == NULL\<close>), it has no test, and no reply is defined.
\<close>

lemma GetText_absent_contents:
  assumes "get_contents cap start (if sint endpos < 0 then G_MAXUINT else endpos) s
             = (None, s')"
  shows "accessible_text_handle_method cap ''GetText'' (GTuple [GInt32 start, GInt32 endpos])
           (calls, s)
         = (Undefined,
            (calls @ [Call_get_contents start (if sint endpos < 0 then G_MAXUINT else endpos)],
             s'))"
  using assms
  by (simp add: accessible_text_handle_method_def handle_GetText_def
      gtk_accessible_text_get_contents_def)

lemma sample_contents_5_3:
  "get_contents text_widget 5 3 sample_widget = (None, sample_widget)"
  by (simp add: text_widget_def widget_get_contents_def)

text \<open>
  C3.  The claim that every GetText invocation with a non-negative \<open>end\<close> is answered
  with the contents over the range from \<open>start\<close> to \<open>end\<close> does not hold of the code.
  For \<open>GetText (5, 3)\<close> the end is before the start, the capability returns no contents
  for the range, and the branch, which does not test for that, passes the \<open>NULL\<close> on to
  \<open>g_bytes_get_data\<close>: the run leaves the defined behaviour instead of replying.
\<close>

theorem GetText_5_3_undefined:
  "get_contents text_widget 5 3 sample_widget = (None, sample_widget) \<and>
   accessible_text_handle_method text_widget ''GetText'' (GTuple [GInt32 5, GInt32 3])
       ([], sample_widget)
     = (Undefined, ([Call_get_contents 5 3], sample_widget))"
  by (simp add: accessible_text_handle_method_def handle_GetText_def
      gtk_accessible_text_get_contents_def sample_contents_5_3)

subsection \<open>GetStringAtOffset\<close>



subsection \<open>GetSelection\<close>

text \<open>
  C5.  GetSelection with the argument \<open>num\<close>, for a capability that reports \<open>n_ranges\<close>
  ranges in an array of at least that many entries: the reply is the error
  \<open>G_DBUS_ERROR_INVALID_ARGS\<close> exactly when \<open>num\<close> is negative or at least \<open>n_ranges\<close>;
  otherwise it is the pair of \<open>start\<close> and \<open>start + length\<close> of the range with index
  \<open>num\<close>, each as an \<open>int\<close> (its low 32 bits).
\<close>

theorem GetSelection_reply:
  assumes "get_selection cap s = (sel, s')"
    and "unat (n_ranges sel) \<le> length (sel_ranges sel)"
  shows "((\<exists>fmt arg. fst (accessible_text_handle_method cap ''GetSelection''
                             (GTuple [GInt32 num]) (calls, s))
                       = Completed (Some (ReturnError G_DBUS_ERROR_INVALID_ARGS fmt arg)))
            \<longleftrightarrow> (sint num < 0 \<or> uint (n_ranges sel) \<le> sint num)) \<and>
         (\<not> (sint num < 0 \<or> uint (n_ranges sel) \<le> sint num) \<longrightarrow>
            accessible_text_handle_method cap ''GetSelection'' (GTuple [GInt32 num]) (calls, s)
              = (Completed (Some (ReturnValue (GTuple
                   [GInt32 (ucast (range_start (sel_ranges sel ! nat (sint num)))),
                    GInt32 (ucast (range_start (sel_ranges sel ! nat (sint num))
                                   + range_length (sel_ranges sel ! nat (sint num))))]))),
                 (calls @ [Call_get_selection], s')))"
proof (cases "sint num < 0")
  case True
  then show ?thesis
    using assms
    by (simp add: accessible_text_handle_method_def handle_GetSelection_def
        gtk_accessible_text_get_selection_def g_dbus_method_invocation_return_error_def)
next
  case False
  then have nn: "0 \<le> sint num"
    by simp
  have cmp: "(n_ranges sel \<le> (scast num :: gsize)) = (uint (n_ranges sel) \<le> sint num)"
  proof -
    have u0: "0 \<le> uint (n_ranges sel)"
      by simp
    have "(nat (uint (n_ranges sel)) \<le> nat (sint num)) = (uint (n_ranges sel) \<le> sint num)"
      using nn u0 by arith
    then show ?thesis
      by (simp only: scast_ge_iff [OF nn] unat_eq_nat_uint)
  qed
  show ?thesis
  proof (cases "uint (n_ranges sel) \<le> sint num")
    case True
    then show ?thesis
      using assms False cmp
      by (simp add: accessible_text_handle_method_def handle_GetSelection_def
          gtk_accessible_text_get_selection_def g_dbus_method_invocation_return_error_def)
  next
    case inside: False
    then have "nat (sint num) < length (sel_ranges sel)"
      using assms(2) nn unfolding unat_eq_nat_uint by arith
    then show ?thesis
      using assms False inside cmp
      by (simp add: accessible_text_handle_method_def handle_GetSelection_def
          gtk_accessible_text_get_selection_def g_dbus_method_invocation_return_value_def
          array_get_def selection_end Let_def)
  qed
qed

theorem GetSelection_reply_witness:
  "get_selection text_widget sample_widget
     = (\<lparr> n_ranges = 1, sel_ranges = [\<lparr> range_start = 0, range_length = 2 \<rparr>] \<rparr>, sample_widget) \<and>
   accessible_text_handle_method text_widget ''GetSelection'' (GTuple [GInt32 0])
       ([], sample_widget)
     = (Completed (Some (ReturnValue (GTuple [GInt32 0, GInt32 2]))),
        ([Call_get_selection], sample_widget)) \<and>
   (\<exists>fmt arg. fst (accessible_text_handle_method text_widget ''GetSelection''
                      (GTuple [GInt32 1]) ([], sample_widget))
                = Completed (Some (ReturnError G_DBUS_ERROR_INVALID_ARGS fmt arg)))"
proof -
  have len: "unat (n_ranges \<lparr> n_ranges = 1, sel_ranges = [\<lparr> range_start = 0, range_length = 2 \<rparr>] \<rparr>)
               \<le> length (sel_ranges \<lparr> n_ranges = 1, sel_ranges = [\<lparr> range_start = 0, range_length = 2 \<rparr>] \<rparr>)"
    by simp
  show ?thesis
    using GetSelection_reply [OF sample_selection len, of 0 "[]"]
      GetSelection_reply [OF sample_selection len, of 1 "[]"] sample_selection
    by simp
qed

subsection \<open>GetAttributes\<close>

lemma upt_2: "[0 ..< 2] = [0, Suc 0]"
  by (simp add: upt_rec)

text \<open>
  C10.  The claim that the reply bounds are the intersection of the reported ranges
  does not hold of the loop.  For the two runs 10 up to 110 and 0 up to 20 the
  dictionary holds the two reported pairs and the start is 10, but the end is 30 and not
  20: the second operand of \<open>MIN\<close> adds the length 20 to the running \<open>start\<close> 10,
  not to the start 0 of its own range.
\<close>

theorem GetAttributes_end_not_intersection:
  "accessible_text_handle_method text_widget ''GetAttributes'' (GTuple [GInt32 15])
       ([], sample_widget)
     = (Completed (Some (ReturnValue (GTuple
          [GDictSS [(''weight'', ''bold''), (''style'', ''italic'')], GInt32 10, GInt32 30]))),
        ([Call_get_attributes 15], sample_widget)) \<and>
   spec_attribute_bounds (attr_ranges (w_attributes sample_widget)) = (10, 20)"
  by (simp add: accessible_text_handle_method_def handle_GetAttributes_def
      gtk_accessible_text_get_attributes_def text_widget_def sample_widget_def
      g_dbus_method_invocation_return_value_def upt_2 array_get_def attributes_step_def
      MAX_macro_def MIN_macro_def G_MAXINT_def spec_attribute_bounds_def)

subsection \<open>GetCharacterAtOffset\<close>

lemma sample_contents_1_2:
  "get_contents text_widget 1 2 sample_widget = (Some (''b'' @ [NUL]), sample_widget)"
  by (simp add: text_widget_def widget_get_contents_def sample_widget_def
      utf8_text_def g_unichar_to_utf8_def char_of_def bit_Suc_0_iff)

lemma g_utf8_skip_b: "g_utf8_skip CHR ''b'' = 1"
  by (simp add: g_utf8_skip_def)

lemma character_at_offset_b_1: "character_at_offset [CHR ''b'', NUL] 1 = Completed 0"
  by (simp add: character_at_offset_def c_string_def NUL_def g_utf8_skip_b)

text \<open>
  C9.  The claim that a valid offset is answered with the character at that offset does
  not hold of the code.  The text \<open>ab\<close> has the character \<open>b\<close> (98) at offset 1; the
  branch asks the capability for the range from 1 to 2, gets the one-character string
  \<open>b\<close>, and then looks for offset 1 inside that string, whose length is 1: the test
  \<open>offset < g_utf8_strlen (str, -1)\<close> fails and the reply is 0.
\<close>

theorem GetCharacterAtOffset_1_is_0:
  "w_text sample_widget ! 1 = 98 \<and>
   accessible_text_handle_method text_widget ''GetCharacterAtOffset'' (GTuple [GInt32 1])
       ([], sample_widget)
     = (Completed (Some (ReturnValue (GTuple [GInt32 0]))),
        ([Call_get_contents 1 2], sample_widget))"
proof
  show "w_text sample_widget ! 1 = 98"
    by (simp add: sample_widget_def)
  show "accessible_text_handle_method text_widget ''GetCharacterAtOffset'' (GTuple [GInt32 1])
       ([], sample_widget)
     = (Completed (Some (ReturnValue (GTuple [GInt32 0]))),
        ([Call_get_contents 1 2], sample_widget))"
    by (simp add: accessible_text_handle_method_def handle_GetCharacterAtOffset_def
        gtk_accessible_text_get_contents_def g_dbus_method_invocation_return_value_def
        sample_contents_1_2 character_at_offset_b_1)
qed

subsection \<open>CharacterCount\<close>

lemma char_of_eq_NUL: "(char_of (n :: nat) = NUL) = (n mod 256 = 0)"
proof -
  have "(char_of n = NUL) = ((of_char (char_of n) :: nat) = of_char NUL)"
    by (simp only: of_char_eq_iff)
  also have "\<dots> = (n mod 256 = 0)"
    by (simp add: NUL_def)
  finally show ?thesis .
qed

lemma g_unichar_to_utf8_no_NUL:
  assumes "0 < c" "c < 0x110000"
  shows "NUL \<notin> set (g_unichar_to_utf8 c)"
  using assms
  by (auto simp add: g_unichar_to_utf8_def char_of_eq_NUL eq_commute [of NUL])

lemma g_unichar_to_utf8_skip:
  assumes "0 < c" "c < 0x110000"
  shows "\<exists>b bs. g_unichar_to_utf8 c = b # bs \<and> g_utf8_skip b - 1 = length bs"
proof -
  consider "c < 0x80" | "0x80 \<le> c" "c < 0x800" | "0x800 \<le> c" "c < 0x10000"
    | "0x10000 \<le> c" "c < 0x110000"
    using assms by linarith
  then show ?thesis
  proof cases
    case 1
    then show ?thesis
      by (simp add: g_unichar_to_utf8_def g_utf8_skip_def)
  next
    case 2
    then have "c div 64 < 32"
      by simp
    with 2 show ?thesis
      by (simp add: g_unichar_to_utf8_def g_utf8_skip_def)
  next
    case 3
    then have "c div 4096 < 16"
      by simp
    with 3 show ?thesis
      by (simp add: g_unichar_to_utf8_def g_utf8_skip_def)
  next
    case 4
    then have "c div 262144 < 8"
      by simp
    with 4 show ?thesis
      by (simp add: g_unichar_to_utf8_def g_utf8_skip_def)
  qed
qed


lemma g_utf8_strlen_append_char:
  assumes "0 < c" "c < 0x110000"
  shows "g_utf8_strlen (g_unichar_to_utf8 c @ rest) = map_option Suc (g_utf8_strlen rest)"
proof -
  obtain b bs where enc: "g_unichar_to_utf8 c = b # bs" and skip: "g_utf8_skip b - 1 = length bs"
    using g_unichar_to_utf8_skip [OF assms] by blast
  from skip have skip': "g_utf8_skip b - Suc 0 = length bs"
    by simp
  show ?thesis
    by (simp add: enc skip')
qed

lemma unicode_text_Cons:
  "unicode_text (c # cps) = (0 < c \<and> c < 0x110000 \<and> unicode_text cps)"
  by (simp add: unicode_text_def)

lemma g_utf8_strlen_utf8_text:
  "unicode_text cps \<Longrightarrow> g_utf8_strlen (utf8_text cps) = Some (length cps)"
proof (induction cps)
  case Nil
  then show ?case
    by (simp add: utf8_text_def)
next
  case (Cons c cps)
  then have c: "0 < c" "c < 0x110000" and rest: "unicode_text cps"
    by (simp_all add: unicode_text_Cons)
  have "utf8_text (c # cps) = g_unichar_to_utf8 c @ utf8_text cps"
    by (simp add: utf8_text_def)
  then show ?case
    using g_utf8_strlen_append_char [OF c, of "utf8_text cps"] Cons.IH [OF rest]
    by simp
qed

lemma utf8_text_no_NUL: "unicode_text cps \<Longrightarrow> NUL \<notin> set (utf8_text cps)"
  by (induction cps) (auto simp add: utf8_text_def unicode_text_Cons g_unichar_to_utf8_no_NUL)

lemma c_string_utf8_text:
  "unicode_text cps \<Longrightarrow> c_string (utf8_text cps @ [NUL]) = Some (utf8_text cps)"
proof -
  assume "unicode_text cps"
  then have no: "NUL \<notin> set (utf8_text cps)"
    by (rule utf8_text_no_NUL)
  then have "takeWhile (\<lambda>c. c \<noteq> NUL) (utf8_text cps @ [NUL]) = utf8_text cps"
    by (subst takeWhile_append2) auto
  then show ?thesis
    by (simp add: c_string_def)
qed


text \<open>
  C7.  Reading CharacterCount asks for the contents from 0 to \<open>G_MAXUINT\<close> and returns,
  as an int32, the number of characters of that text, not the number of its bytes: for
  contents that are the UTF-8 encoding of the code points \<open>cps\<close> (none of them 0) followed
  by the NUL, the value is the length of \<open>cps\<close>, converted to \<open>int\<close>.
\<close>

theorem CharacterCount_counts_characters:
  assumes "get_contents cap 0 G_MAXUINT s = (Some (utf8_text cps @ [NUL]), s')"
    and "unicode_text cps"
  shows "accessible_text_get_property cap ''CharacterCount'' (calls, s)
         = (Completed (Some (GInt32 (of_nat (length cps)))),
            (calls @ [Call_get_contents 0 G_MAXUINT], s'))"
  using assms
  by (simp add: accessible_text_get_property_def gtk_accessible_text_get_contents_def
      c_string_utf8_text g_utf8_strlen_utf8_text)

lemma accented_contents_all:
  "get_contents text_widget 0 G_MAXUINT accented_widget
     = (Some (utf8_text [233, 8364, 97] @ [NUL]), accented_widget)"
  by (simp add: text_widget_def widget_get_contents_def G_MAXUINT_def accented_widget_def)

theorem CharacterCount_counts_characters_witness:
  "get_contents text_widget 0 G_MAXUINT accented_widget
     = (Some (utf8_text [233, 8364, 97] @ [NUL]), accented_widget) \<and>
   unicode_text [233, 8364, 97] \<and>
   length (utf8_text [233, 8364, 97]) = 6 \<and>
   accessible_text_get_property text_widget ''CharacterCount'' ([], accented_widget)
     = (Completed (Some (GInt32 3)), ([Call_get_contents 0 G_MAXUINT], accented_widget))"
proof -
  have u: "unicode_text [233, 8364, 97]"
    by (simp add: unicode_text_def)
  have l: "length (utf8_text [233, 8364, 97]) = 6"
    by (simp add: utf8_text_def g_unichar_to_utf8_def)
  show ?thesis
    using CharacterCount_counts_characters [OF accented_contents_all u, of "[]"]
      accented_contents_all u l
    by simp
qed

subsection \<open>GetCharacterAtOffset on any text\<close>

lemma character_at_offset_single:
  assumes "unicode_text cs" and "length cs \<le> 1" and "0 < sint offset"
  shows "character_at_offset (utf8_text cs @ [NUL]) offset = Completed 0"
  using assms
  by (simp add: character_at_offset_def c_string_utf8_text g_utf8_strlen_utf8_text)

lemma unicode_text_take_drop:
  "unicode_text cps \<Longrightarrow> unicode_text (take n (drop m cps))"
  unfolding unicode_text_def list_all_iff
  by (meson in_set_dropD in_set_takeD)

text \<open>
  The same holds for every text and every positive offset: the widget returns at most
  one character for the range from \<open>offset\<close> to \<open>offset + 1\<close>, so the offset is
  never below the length of the returned string and the reply is 0.
\<close>

lemma GetCharacterAtOffset_positive_offset:
  assumes "unicode_text (w_text w)" and "0 < sint offset"
  shows "accessible_text_handle_method text_widget ''GetCharacterAtOffset''
           (GTuple [GInt32 offset]) (calls, w)
         = (Completed (Some (ReturnValue (GTuple [GInt32 0]))),
            (calls @ [Call_get_contents offset (offset + 1)], w))"
proof (cases "offset + 1 < offset")
  case True
  then show ?thesis
    by (simp add: accessible_text_handle_method_def handle_GetCharacterAtOffset_def
        gtk_accessible_text_get_contents_def g_dbus_method_invocation_return_value_def
        text_widget_def widget_get_contents_def)
next
  case False
  let ?cs = "take (unat (offset + 1) - unat offset) (drop (unat offset) (w_text w))"
  have "unat (offset + 1) = (unat offset + 1) mod 2 ^ 32"
    by (simp add: unat_word_ariths)
  then have "unat (offset + 1) \<le> unat offset + 1"
    by (metis mod_less_eq_dividend)
  then have len: "length ?cs \<le> 1"
    by simp
  have uni: "unicode_text ?cs"
    using assms(1) by (rule unicode_text_take_drop)
  have "character_at_offset (utf8_text ?cs @ [NUL]) offset = Completed 0"
    using uni len assms(2) by (rule character_at_offset_single)
  with False show ?thesis
    by (simp add: accessible_text_handle_method_def handle_GetCharacterAtOffset_def
        gtk_accessible_text_get_contents_def g_dbus_method_invocation_return_value_def
        text_widget_def widget_get_contents_def)
qed

subsection \<open>The object is only read\<close>

lemma get_caret_position_frame:
  "read_only cap \<Longrightarrow> gtk_accessible_text_get_caret_position cap st = (r, st')
     \<Longrightarrow> snd st' = snd st"
  by (cases "get_caret_position cap (snd st)")
    (auto simp add: gtk_accessible_text_get_caret_position_def read_only_def
      dest: arg_cong [where f = snd])

lemma get_contents_frame:
  assumes "read_only cap" and "gtk_accessible_text_get_contents cap a b st = (r, st')"
  shows "snd st' = snd st"
proof -
  have "snd (get_contents cap a b (snd st)) = snd st"
    using assms(1) by (simp add: read_only_def)
  then show ?thesis
    using assms(2)
    by (auto simp add: gtk_accessible_text_get_contents_def split: prod.splits)
qed

lemma get_contents_at_frame:
  assumes "read_only cap" and "gtk_accessible_text_get_contents_at cap a g st = (r, st')"
  shows "snd st' = snd st"
proof -
  have "snd (get_contents_at cap a g (snd st)) = snd st"
    using assms(1) by (simp add: read_only_def)
  then show ?thesis
    using assms(2)
    by (auto simp add: gtk_accessible_text_get_contents_at_def split: prod.splits)
qed

lemma get_attributes_frame:
  assumes "read_only cap" and "gtk_accessible_text_get_attributes cap a st = (r, st')"
  shows "snd st' = snd st"
proof -
  have "snd (get_attributes cap a (snd st)) = snd st"
    using assms(1) by (simp add: read_only_def)
  then show ?thesis
    using assms(2)
    by (auto simp add: gtk_accessible_text_get_attributes_def split: prod.splits)
qed

lemma get_selection_frame:
  assumes "read_only cap" and "gtk_accessible_text_get_selection cap st = (r, st')"
  shows "snd st' = snd st"
proof -
  have "snd (get_selection cap (snd st)) = snd st"
    using assms(1) by (simp add: read_only_def)
  then show ?thesis
    using assms(2)
    by (auto simp add: gtk_accessible_text_get_selection_def split: prod.splits)
qed

lemma handle_GetCaretOffset_frame:
  "read_only cap \<Longrightarrow> snd (snd (handle_GetCaretOffset cap st)) = snd st"
  by (auto simp add: handle_GetCaretOffset_def g_dbus_method_invocation_return_value_def
      split: prod.splits dest: get_caret_position_frame)

lemma handle_GetText_frame:
  "read_only cap \<Longrightarrow> snd (snd (handle_GetText cap p st)) = snd st"
  by (auto simp add: handle_GetText_def g_dbus_method_invocation_return_value_def
      split: prod.splits option.splits dest: get_contents_frame)

lemma handle_GetCharacterAtOffset_frame:
  "read_only cap \<Longrightarrow> snd (snd (handle_GetCharacterAtOffset cap p st)) = snd st"
  by (auto simp add: handle_GetCharacterAtOffset_def g_dbus_method_invocation_return_value_def
      split: prod.splits option.splits outcome.splits dest: get_contents_frame)

lemma handle_GetStringAtOffset_frame:
  "read_only cap \<Longrightarrow> snd (snd (handle_GetStringAtOffset cap p st)) = snd st"
  by (auto simp add: handle_GetStringAtOffset_def g_dbus_method_invocation_return_value_def
      split: prod.splits option.splits dest: get_contents_at_frame)

lemma handle_GetAttributes_frame:
  "read_only cap \<Longrightarrow> snd (snd (handle_GetAttributes cap p st)) = snd st"
  by (auto simp add: handle_GetAttributes_def g_dbus_method_invocation_return_value_def
      split: prod.splits option.splits outcome.splits dest: get_attributes_frame)

lemma handle_GetAttributeValue_frame:
  "read_only cap \<Longrightarrow> snd (snd (handle_GetAttributeValue cap p st)) = snd st"
  by (auto simp add: handle_GetAttributeValue_def g_dbus_method_invocation_return_value_def
      split: prod.splits option.splits dest: get_attributes_frame)

lemma handle_GetNSelections_frame:
  "read_only cap \<Longrightarrow> snd (snd (handle_GetNSelections cap st)) = snd st"
  by (auto simp add: handle_GetNSelections_def g_dbus_method_invocation_return_value_def
      split: prod.splits dest: get_selection_frame)

lemma handle_GetSelection_frame:
  "read_only cap \<Longrightarrow> snd (snd (handle_GetSelection cap p st)) = snd st"
  by (auto simp add: handle_GetSelection_def g_dbus_method_invocation_return_value_def
      g_dbus_method_invocation_return_error_def Let_def
      split: prod.splits option.splits dest: get_selection_frame)

lemmas handle_frames =
  handle_GetCaretOffset_frame handle_GetText_frame handle_GetCharacterAtOffset_frame
  handle_GetStringAtOffset_frame handle_GetAttributes_frame handle_GetAttributeValue_frame
  handle_GetNSelections_frame handle_GetSelection_frame

lemma get_property_frame:
  "read_only cap \<Longrightarrow> snd (snd (accessible_text_get_property cap property_name st)) = snd st"
  by (auto simp add: accessible_text_get_property_def
      split: prod.splits option.splits dest: get_contents_frame get_caret_position_frame)


lemma read_only_text_widget: "read_only text_widget"
  by (simp add: read_only_def text_widget_def)

text \<open>
  C2.  The adapter calls the capability only through \<open>get_caret_position\<close>,
  \<open>get_contents\<close>, \<open>get_contents_at\<close>, \<open>get_attributes\<close> and \<open>get_selection\<close> (the type
  of recorded calls has no other).  When these five only read the object, every method
  call, whatever its name and parameters, and every property read leaves the state of the
  accessible object as it was.
\<close>

theorem adapter_leaves_object_unchanged:
  assumes "read_only cap"
  shows "snd (snd (accessible_text_handle_method cap method_name parameters (calls, s))) = s \<and>
         snd (snd (accessible_text_get_property cap property_name (calls, s))) = s"
proof
  show "snd (snd (accessible_text_handle_method cap method_name parameters (calls, s))) = s"
    using assms
    by (simp add: accessible_text_handle_method_def handle_frames
        g_dbus_method_invocation_return_error_literal_def)
  show "snd (snd (accessible_text_get_property cap property_name (calls, s))) = s"
    using get_property_frame [OF assms, of property_name "(calls, s)"] by simp
qed

theorem adapter_leaves_object_unchanged_witness:
  "read_only text_widget \<and>
   snd (snd (accessible_text_handle_method text_widget ''GetNSelections'' (GTuple [])
               ([], sample_widget))) = sample_widget \<and>
   snd (snd (accessible_text_get_property text_widget ''CaretOffset'' ([], sample_widget)))
     = sample_widget"
  using adapter_leaves_object_unchanged [OF read_only_text_widget,
      of "''GetNSelections''" "GTuple []" "[]" sample_widget "''CaretOffset''"]
    read_only_text_widget
  by simp

end
